theory Spec2Isabelle
  imports Main
begin

section \<open>Python values and exceptions\<close>

text \<open>
  The exceptions that the modelled code can raise or let through. \<open>ImportError\<close>
  carries its message. \<open>ClassNotFound\<close> is what the pygments registry raises for an
  unknown name, \<open>LexerError\<close> stands for whatever a token source raises while it is being
  iterated, \<open>KeyError\<close> for a theme that has no entry for a token, and
  \<open>AttributeError\<close> for reading a theme attribute from a value that is not a theme,
  and \<open>TypeError\<close> for calling a value that is not callable.
\<close>

datatype pyexn =
    ImportError string
  | AssertionError
  | ClassNotFound string
  | AttributeError
  | KeyError
  | LexerError string
  | TypeError

section \<open>util.py: the missing dependency\<close>














section \<open>Themes, tokens and the theme registry\<close>

text \<open>
  A pygments token type is a tuple of names (\<open>Token.Keyword\<close> is \<open>('Keyword',)\<close>).
  The style spec is the dictionary returned by \<open>style_for_token\<close>, of which the
  formatter reads the keys below. A theme is a pygments style class: the formatter reads
  its \<open>background_color\<close> and calls its \<open>style_for_token\<close>, which is a black box
  that may raise.
\<close>

type_synonym token = "string list"

record style_spec =
  color :: "string option"
  bold :: bool
  italic :: bool
  underline :: bool
  roman :: bool
  sans :: bool
  mono :: bool

record theme =
  theme_name :: string
  background_color :: string
  style_for_token :: "token \<Rightarrow> pyexn + style_spec"

text \<open>The values a caller can pass where a style is expected.\<close>

datatype pyval = Str string | StyleCls theme | IntVal int | NoneVal

text \<open>
  The registry of pygments (\<open>pygments.styles\<close>): the known names with their themes.
  \<open>get_all_styles\<close> enumerates the names, \<open>get_style_by_name\<close> resolves one.
\<close>

type_synonym registry = "(string \<times> theme) list"

definition get_all_styles :: "registry \<Rightarrow> string list" where
  "get_all_styles reg = map fst reg"

definition get_style_by_name :: "registry \<Rightarrow> string \<Rightarrow> pyexn + theme" where
  "get_style_by_name reg n =
     (case map_of reg n of Some th \<Rightarrow> Inr th | None \<Rightarrow> Inl (ClassNotFound n))"

text \<open>\<open>style in pygments.styles.get_all_styles()\<close>: only a string equals a name.\<close>

definition in_all_styles :: "pyval \<Rightarrow> registry \<Rightarrow> bool" where
  "in_all_styles sty reg = (case sty of Str n \<Rightarrow> n \<in> set (get_all_styles reg) | _ \<Rightarrow> False)"

text \<open>\<open>isinstance(style, PygmentsStyle)\<close>\<close>

definition isinstance_PygmentsStyle :: "pyval \<Rightarrow> bool" where
  "isinstance_PygmentsStyle sty = (case sty of StyleCls th \<Rightarrow> True | _ \<Rightarrow> False)"

section \<open>The widget: wx.richtext\<close>

datatype fontfamily = FONTFAMILY_ROMAN | FONTFAMILY_SWISS | FONTFAMILY_TELETYPE
datatype fontstyle = FONTSTYLE_ITALIC | FONTSTYLE_NORMAL
datatype fontweight = FONTWEIGHT_BOLD | FONTWEIGHT_NORMAL
datatype underlinetype = TEXT_ATTR_UNDERLINE_SOLID | TEXT_ATTR_UNDERLINE_NONE

text \<open>
  \<open>wx.richtext.RichTextAttr\<close>: each attribute is either set or absent. \<open>Apply\<close>
  copies onto the receiver the attributes that the argument has set.
\<close>

record RichTextAttr =
  FontFamily :: "fontfamily option"
  FontStyle :: "fontstyle option"
  FontWeight :: "fontweight option"
  FontUnderlined :: "underlinetype option"
  TextColour :: "string option"

definition RichTextAttr_new :: RichTextAttr where
  "RichTextAttr_new =
     \<lparr>FontFamily = None, FontStyle = None, FontWeight = None,
      FontUnderlined = None, TextColour = None\<rparr>"

definition override :: "'a option \<Rightarrow> 'a option \<Rightarrow> 'a option" where
  "override old new = (case new of Some v \<Rightarrow> Some v | None \<Rightarrow> old)"

definition Apply :: "RichTextAttr \<Rightarrow> RichTextAttr \<Rightarrow> RichTextAttr" where
  "Apply font base =
     \<lparr>FontFamily = override (FontFamily font) (FontFamily base),
      FontStyle = override (FontStyle font) (FontStyle base),
      FontWeight = override (FontWeight font) (FontWeight base),
      FontUnderlined = override (FontUnderlined font) (FontUnderlined base),
      TextColour = override (TextColour font) (TextColour base)\<rparr>"

definition SetFontFamily :: "RichTextAttr \<Rightarrow> fontfamily \<Rightarrow> RichTextAttr" where
  "SetFontFamily font v = font\<lparr>FontFamily := Some v\<rparr>"

definition SetFontStyle :: "RichTextAttr \<Rightarrow> fontstyle \<Rightarrow> RichTextAttr" where
  "SetFontStyle font v = font\<lparr>FontStyle := Some v\<rparr>"

definition SetFontWeight :: "RichTextAttr \<Rightarrow> fontweight \<Rightarrow> RichTextAttr" where
  "SetFontWeight font v = font\<lparr>FontWeight := Some v\<rparr>"

definition SetFontUnderlined :: "RichTextAttr \<Rightarrow> underlinetype \<Rightarrow> RichTextAttr" where
  "SetFontUnderlined font v = font\<lparr>FontUnderlined := Some v\<rparr>"

definition SetTextColour :: "RichTextAttr \<Rightarrow> string \<Rightarrow> RichTextAttr" where
  "SetTextColour font v = font\<lparr>TextColour := Some v\<rparr>"

text \<open>\<open>wx.richtext.RichTextRange(start, end)\<close> with its two properties.\<close>

record RichTextRange =
  Start :: nat
  End :: nat

definition RichTextRange_new :: "nat \<Rightarrow> nat \<Rightarrow> RichTextRange" where
  "RichTextRange_new s e = \<lparr>Start = s, End = e\<rparr>"

text \<open>
  The control, as far as \<open>format\<close> touches it: its id, its text, its basic style, its
  background colour, the nesting depth of undo suppression of its buffer, its freeze
  depth, the \<open>SetStyleEx\<close> calls it has received (oldest first), and how often it was
  asked to update and to refresh.
\<close>

record RichTextCtrl =
  Id :: nat
  Value :: string
  BasicStyle :: RichTextAttr
  BackgroundColour :: string
  SuppressUndo :: nat
  Frozen :: nat
  StyleEx_calls :: "(RichTextRange \<times> RichTextAttr) list"
  Update_calls :: nat
  Refresh_calls :: nat

definition GetId :: "RichTextCtrl \<Rightarrow> nat" where
  "GetId outfile = Id outfile"

definition GetValue :: "RichTextCtrl \<Rightarrow> string" where
  "GetValue outfile = Value outfile"

definition GetBasicStyle :: "RichTextCtrl \<Rightarrow> RichTextAttr" where
  "GetBasicStyle outfile = BasicStyle outfile"

definition BeginSuppressUndo :: "RichTextCtrl \<Rightarrow> RichTextCtrl" where
  "BeginSuppressUndo outfile = outfile\<lparr>SuppressUndo := SuppressUndo outfile + 1\<rparr>"

definition EndSuppressUndo :: "RichTextCtrl \<Rightarrow> RichTextCtrl" where
  "EndSuppressUndo outfile = outfile\<lparr>SuppressUndo := SuppressUndo outfile - 1\<rparr>"

definition Freeze :: "RichTextCtrl \<Rightarrow> RichTextCtrl" where
  "Freeze outfile = outfile\<lparr>Frozen := Frozen outfile + 1\<rparr>"

definition Thaw :: "RichTextCtrl \<Rightarrow> RichTextCtrl" where
  "Thaw outfile = outfile\<lparr>Frozen := Frozen outfile - 1\<rparr>"

definition SetBackgroundColour :: "RichTextCtrl \<Rightarrow> string \<Rightarrow> RichTextCtrl" where
  "SetBackgroundColour outfile c = outfile\<lparr>BackgroundColour := c\<rparr>"

definition SetStyleEx :: "RichTextCtrl \<Rightarrow> RichTextRange \<Rightarrow> RichTextAttr \<Rightarrow> RichTextCtrl" where
  "SetStyleEx outfile rng fmt = outfile\<lparr>StyleEx_calls := StyleEx_calls outfile @ [(rng, fmt)]\<rparr>"

definition Update :: "RichTextCtrl \<Rightarrow> RichTextCtrl" where
  "Update outfile = outfile\<lparr>Update_calls := Update_calls outfile + 1\<rparr>"

definition Refresh :: "RichTextCtrl \<Rightarrow> RichTextCtrl" where
  "Refresh outfile = outfile\<lparr>Refresh_calls := Refresh_calls outfile + 1\<rparr>"

text \<open>
  Python's \<open>s[a:b]\<close> for indices that are not negative: both ends are clamped. A text
  is the list of its characters, and \<open>len\<close> is the length of that list.
\<close>

definition slice :: "'a list \<Rightarrow> nat \<Rightarrow> nat \<Rightarrow> 'a list" where
  "slice s a b = drop a (take b s)"

section \<open>wx/richtext.py: WxRichTextCtrlFormatter\<close>

text \<open>
  The formatter object: \<open>self.style\<close>, \<open>self._styles_cache\<close>, \<open>self._last_text_cache\<close>.
  \<open>self.style\<close> is whatever the base class stored, so it is a Python value.
\<close>

record formatter =
  style :: pyval
  styles_cache :: "token \<rightharpoonup> RichTextAttr"
  last_text_cache :: "nat \<rightharpoonup> string"

definition get_style :: "formatter \<Rightarrow> pyval" where
  "get_style self = style self"

text \<open>
  \<^verbatim>\<open>
  def set_style(self, style):
      if style in pygments.styles.get_all_styles():
          style = pygments.styles.get_style_by_name(style)
      assert isinstance(style, PygmentsStyle), (...)
      if style != self.style:
          self._styles_cache = {}
          self._last_text_cache = {}
      self.style = style
  \<close>
  Returns the outcome and the formatter after the call. Python compares two style classes
  by identity; here a theme is the same as another when its name, its background and its
  answers for all tokens are.
\<close>

text \<open>The first two lines of \<open>set_style\<close>: a known name is replaced by its theme.\<close>

definition resolve_name :: "registry \<Rightarrow> pyval \<Rightarrow> pyexn + pyval" where
  "resolve_name reg sty =
     (if in_all_styles sty reg
      then (case sty of
              Str n \<Rightarrow> (case get_style_by_name reg n of Inl e \<Rightarrow> Inl e | Inr th \<Rightarrow> Inr (StyleCls th))
            | _ \<Rightarrow> Inr sty)
      else Inr sty)"

definition set_style :: "registry \<Rightarrow> formatter \<Rightarrow> pyval \<Rightarrow> (pyexn + unit) \<times> formatter" where
  "set_style reg self sty0 =
     (case resolve_name reg sty0 of
        Inl e \<Rightarrow> (Inl e, self)
      | Inr sty \<Rightarrow>
          if \<not> isinstance_PygmentsStyle sty then (Inl AssertionError, self)
          else
            let self1 = (if sty \<noteq> style self
                         then self\<lparr>styles_cache := Map.empty, last_text_cache := Map.empty\<rparr>
                         else self)
            in (Inr (), self1\<lparr>style := sty\<rparr>))"

text \<open>
  The base class initialiser of pygments, \<open>Formatter.__init__\<close>, stores
  \<open>_lookup_style(style)\<close>: a string is resolved by \<open>get_style_by_name\<close> (which raises
  \<open>ClassNotFound\<close> for an unknown name) and any other value is stored as it is.
\<close>

definition Formatter_init :: "registry \<Rightarrow> pyval \<Rightarrow> pyexn + pyval" where
  "Formatter_init reg sty =
     (case sty of
        Str n \<Rightarrow> (case get_style_by_name reg n of Inl e \<Rightarrow> Inl e | Inr th \<Rightarrow> Inr (StyleCls th))
      | _ \<Rightarrow> Inr sty)"

text \<open>
  \<^verbatim>\<open>
  def __init__(self, style="vs", **options):
      Formatter.__init__(self, style=style, **options)
      self._styles_cache = {}
      self._last_text_cache = {}
      self.set_style(style)
  \<close>
\<close>

definition init :: "registry \<Rightarrow> pyval \<Rightarrow> pyexn + formatter" where
  "init reg sty =
     (case Formatter_init reg sty of
        Inl e \<Rightarrow> Inl e
      | Inr st \<Rightarrow>
          let self = \<lparr>style = st, styles_cache = Map.empty, last_text_cache = Map.empty\<rparr>
          in (case set_style reg self sty of
                (Inl e, self') \<Rightarrow> Inl e
              | (Inr u, self') \<Rightarrow> Inr self'))"

text \<open>Reading an attribute of \<open>self.style\<close> fails on a value that is not a theme.\<close>

definition style_background_color :: "pyval \<Rightarrow> pyexn + string" where
  "style_background_color sty =
     (case sty of StyleCls th \<Rightarrow> Inr (background_color th) | _ \<Rightarrow> Inl AttributeError)"

definition style_style_for_token :: "pyval \<Rightarrow> token \<Rightarrow> pyexn + style_spec" where
  "style_style_for_token sty tok =
     (case sty of StyleCls th \<Rightarrow> style_for_token th tok | _ \<Rightarrow> Inl AttributeError)"

text \<open>
  The body of \<open>get_rtc_style\<close> after the cache miss: the attribute object built from the
  base and the spec.
  \<^verbatim>\<open>
  font = wx.richtext.RichTextAttr()
  font.Apply(base)
  for key, family in (("roman", wx.FONTFAMILY_ROMAN), ("sans", wx.FONTFAMILY_SWISS),
                      ("mono", wx.FONTFAMILY_TELETYPE)):
      if spec.get(key, None):
          font.SetFontFamily(family)
          break
  font.SetFontStyle(wx.FONTSTYLE_ITALIC if spec['italic'] else wx.FONTSTYLE_NORMAL)
  font.SetFontWeight(wx.FONTWEIGHT_BOLD if spec['bold'] else wx.FONTWEIGHT_NORMAL)
  font.SetFontUnderlined(wx.TEXT_ATTR_UNDERLINE_SOLID if spec['underline']
                         else wx.TEXT_ATTR_UNDERLINE_NONE)
  if spec['color'] is not None:
      font.SetTextColour(f"#{spec['color']}")
  \<close>
\<close>

definition make_font :: "style_spec \<Rightarrow> RichTextAttr \<Rightarrow> RichTextAttr" where
  "make_font spec base =
     (let font = Apply RichTextAttr_new base;
          font = (if roman spec then SetFontFamily font FONTFAMILY_ROMAN
                  else if sans spec then SetFontFamily font FONTFAMILY_SWISS
                  else if mono spec then SetFontFamily font FONTFAMILY_TELETYPE
                  else font);
          font = SetFontStyle font (if italic spec then FONTSTYLE_ITALIC else FONTSTYLE_NORMAL);
          font = SetFontWeight font (if bold spec then FONTWEIGHT_BOLD else FONTWEIGHT_NORMAL);
          font = SetFontUnderlined font
                   (if underline spec then TEXT_ATTR_UNDERLINE_SOLID else TEXT_ATTR_UNDERLINE_NONE)
      in (case color spec of
            Some c \<Rightarrow> SetTextColour font (CHR ''#'' # c)
          | None \<Rightarrow> font))"

text \<open>
  \<^verbatim>\<open>
  def get_rtc_style(self, token, base):
      if token in self._styles_cache:
          return self._styles_cache[token]
      spec = self.style.style_for_token(token)
      ...
      self._styles_cache[token] = font
      return font
  \<close>
\<close>

definition get_rtc_style ::
  "formatter \<Rightarrow> token \<Rightarrow> RichTextAttr \<Rightarrow> (pyexn + RichTextAttr) \<times> formatter" where
  "get_rtc_style self tok base =
     (case styles_cache self tok of
        Some font \<Rightarrow> (Inr font, self)
      | None \<Rightarrow>
          (case style_style_for_token (style self) tok of
             Inl e \<Rightarrow> (Inl e, self)
           | Inr spec \<Rightarrow>
               let font = make_font spec base
               in (Inr font, self\<lparr>styles_cache := (styles_cache self)(tok \<mapsto> font)\<rparr>)))"

text \<open>
  The token source is a single-pass iterator: asked for its next item it yields a pair
  and goes on, or it is exhausted, or it raises.
\<close>

datatype tokensource =
    StopIteration
  | Yield token string tokensource
  | Raise pyexn

fun of_spans :: "(token \<times> string) list \<Rightarrow> tokensource" where
  "of_spans [] = StopIteration"
| "of_spans ((tok, text) # rest) = Yield tok text (of_spans rest)"

text \<open>
  The loop of \<open>format\<close>:
  \<^verbatim>\<open>
  i = 0
  for token, text in tokensource:
      rng = wx.richtext.RichTextRange(i, i + len(text))
      i = rng.End
      last_styled_text = self._last_text_cache.get(outfile.GetId(), "")
      if (
          len(last_styled_text) > rng.End and
          outfile.GetValue()[rng.Start:rng.End] == last_styled_text[rng.Start:rng.End]
      ):
              continue
      fmt = self.get_rtc_style(token, base=outfile.GetBasicStyle())
      outfile.SetStyleEx(rng, fmt)
  \<close>
\<close>

fun format_loop ::
  "formatter \<Rightarrow> RichTextCtrl \<Rightarrow> nat \<Rightarrow> tokensource \<Rightarrow> (pyexn + unit) \<times> formatter \<times> RichTextCtrl" where
  "format_loop self outfile i StopIteration = (Inr (), self, outfile)"
| "format_loop self outfile i (Raise e) = (Inl e, self, outfile)"
| "format_loop self outfile i (Yield tok text rest) =
     (let rng = RichTextRange_new i (i + length text);
          i' = End rng;
          last_styled_text = (case last_text_cache self (GetId outfile) of
                                Some s \<Rightarrow> s | None \<Rightarrow> '''')
      in if length last_styled_text > End rng \<and>
            slice (GetValue outfile) (Start rng) (End rng)
              = slice last_styled_text (Start rng) (End rng)
         then format_loop self outfile i' rest
         else (case get_rtc_style self tok (GetBasicStyle outfile) of
                 (Inl e, self') \<Rightarrow> (Inl e, self', outfile)
               | (Inr fmt, self') \<Rightarrow> format_loop self' (SetStyleEx outfile rng fmt) i' rest))"

text \<open>
  \<^verbatim>\<open>
  def format(self, tokensource, outfile):
      outfile.GetBuffer().BeginSuppressUndo()
      outfile.Freeze()
      outfile.SetBackgroundColour(self.style.background_color)
      i = 0
      for token, text in tokensource: ...
      self._last_text_cache[outfile.GetId()] = outfile.GetValue()
      outfile.GetBuffer().EndSuppressUndo()
      outfile.Thaw()
      outfile.Update()
      outfile.Refresh()
  \<close>
  There is no \<open>try\<close> in the function: an exception leaves it at the statement that raised.
  The model is of the module with wxPython installed (otherwise \<open>wx\<close> is the
  \<open>MissingPackage\<close> above and the first \<open>wx.richtext.RichTextRange(...)\<close> raises).
\<close>

definition format ::
  "formatter \<Rightarrow> tokensource \<Rightarrow> RichTextCtrl \<Rightarrow> (pyexn + unit) \<times> formatter \<times> RichTextCtrl" where
  "format self tokens outfile0 =
     (let outfile1 = Freeze (BeginSuppressUndo outfile0)
      in (case style_background_color (style self) of
            Inl e \<Rightarrow> (Inl e, self, outfile1)
          | Inr bg \<Rightarrow>
              (case format_loop self (SetBackgroundColour outfile1 bg) 0 tokens of
                 (Inl e, self', outfile2) \<Rightarrow> (Inl e, self', outfile2)
               | (Inr u, self', outfile2) \<Rightarrow>
                   (Inr (),
                    self'\<lparr>last_text_cache :=
                            (last_text_cache self')(GetId outfile2 \<mapsto> GetValue outfile2)\<rparr>,
                    Refresh (Update (Thaw (EndSuppressUndo outfile2)))))))"

section \<open>Ranges of a stream, and a concrete scenario\<close>

text \<open>
  The position of a span is implicit: span \<open>k\<close> starts at the cumulative length of the
  texts of the spans before it. This is the range list the specification speaks of,
  written without reference to \<open>format\<close>.
\<close>

fun span_ranges :: "nat \<Rightarrow> (token \<times> string) list \<Rightarrow> RichTextRange list" where
  "span_ranges i [] = []"
| "span_ranges i ((tok, text) # rest) =
     \<lparr>Start = i, End = i + length text\<rparr> # span_ranges (i + length text) rest"

text \<open>
  The scenario of the specification: a theme \<open>default\<close> whose keywords are bold and blue,
  a control holding \<open>if x\<close>, and the three spans a lexer yields for it.
\<close>

definition plain_spec :: style_spec where
  "plain_spec = \<lparr>color = None, bold = False, italic = False, underline = False,
                 roman = False, sans = False, mono = False\<rparr>"

definition keyword_spec :: style_spec where
  "keyword_spec = \<lparr>color = Some ''0000FF'', bold = True, italic = False, underline = False,
                   roman = False, sans = False, mono = False\<rparr>"

definition default_theme :: theme where
  "default_theme =
     \<lparr>theme_name = ''default'', background_color = ''#ffffff'',
      style_for_token = (\<lambda>tok. if tok = [''Keyword''] then Inr keyword_spec else Inr plain_spec)\<rparr>"

text \<open>A second theme, in which keywords are italic and red, and one that knows no token.\<close>

definition other_theme :: theme where
  "other_theme =
     \<lparr>theme_name = ''other'', background_color = ''#000000'',
      style_for_token = (\<lambda>tok. if tok = [''Keyword'']
         then Inr (plain_spec\<lparr>color := Some ''FF0000'', italic := True\<rparr>) else Inr plain_spec)\<rparr>"

definition broken_theme :: theme where
  "broken_theme =
     \<lparr>theme_name = ''broken'', background_color = ''#ffffff'',
      style_for_token = (\<lambda>tok. Inl KeyError)\<rparr>"

definition example_registry :: registry where
  "example_registry = [(''default'', default_theme), (''other'', other_theme)]"

definition example_ctrl :: RichTextCtrl where
  "example_ctrl =
     \<lparr>Id = 7, Value = ''if x'', BasicStyle = RichTextAttr_new, BackgroundColour = [],
      SuppressUndo = 0, Frozen = 0, StyleEx_calls = [], Update_calls = 0, Refresh_calls = 0\<rparr>"

definition example_formatter :: formatter where
  "example_formatter =
     \<lparr>style = StyleCls default_theme, styles_cache = Map.empty, last_text_cache = Map.empty\<rparr>"

definition example_spans :: "(token \<times> string) list" where
  "example_spans = [([''Keyword''], ''if''), ([''Text''], '' ''), ([''Name''], ''x'')]"

text \<open>The formatter and the control after one \<open>format\<close> of the scenario.\<close>

definition formatter_after_first :: formatter where
  "formatter_after_first = fst (snd (format example_formatter (of_spans example_spans) example_ctrl))"

definition ctrl_after_first :: RichTextCtrl where
  "ctrl_after_first = snd (snd (format example_formatter (of_spans example_spans) example_ctrl))"

text \<open>A stream with a gap (the blank is missing), and one that raises after its first span.\<close>

definition gap_spans :: "(token \<times> string) list" where
  "gap_spans = [([''Keyword''], ''if''), ([''Name''], ''x'')]"

definition failing_source :: tokensource where
  "failing_source = Yield [''Keyword''] ''if'' (Raise (LexerError ''boom''))"

text \<open>A base style with a serif family and a colour, to tell two bases apart.\<close>

definition serif_base :: RichTextAttr where
  "serif_base = RichTextAttr_new\<lparr>FontFamily := Some FONTFAMILY_ROMAN, TextColour := Some ''#333333''\<rparr>"

text \<open>A theme that has an entry for keywords only: every other token raises.\<close>

definition keyword_only_theme :: theme where
  "keyword_only_theme =
     \<lparr>theme_name = ''keyword-only'', background_color = ''#ffffff'',
      style_for_token = (\<lambda>tok. if tok = [''Keyword''] then Inr keyword_spec else Inl KeyError)\<rparr>"



section \<open>The missing dependency\<close>






section \<open>What the operations leave alone\<close>

lemma get_rtc_style_cached:
  "styles_cache self tok = Some v \<Longrightarrow> get_rtc_style self tok base = (Inr v, self)"
  by (simp add: get_rtc_style_def)

lemma get_rtc_style_frame:
  assumes "get_rtc_style self tok base = (r, self')"
  shows "style self' = style self" and "last_text_cache self' = last_text_cache self"
    and "styles_cache self \<subseteq>\<^sub>m styles_cache self'"
  using assms
  by (auto simp: get_rtc_style_def Let_def map_le_def split: option.splits sum.splits)

lemma get_rtc_style_stores:
  assumes "get_rtc_style self tok base = (Inr v, self')"
  shows "styles_cache self' tok = Some v"
  using assms
  by (auto simp: get_rtc_style_def Let_def split: option.splits sum.splits)

lemma get_rtc_style_miss:
  assumes "styles_cache self tok = None"
  shows "get_rtc_style self tok base =
     (case style_style_for_token (style self) tok of
        Inl e \<Rightarrow> (Inl e, self)
      | Inr spec \<Rightarrow> (Inr (make_font spec base),
                     self\<lparr>styles_cache := (styles_cache self)(tok \<mapsto> make_font spec base)\<rparr>))"
  using assms by (simp add: get_rtc_style_def Let_def split: sum.splits)

lemma get_rtc_style_succeeds:
  assumes "style self = StyleCls th" and "style_for_token th tok = Inr sp"
  shows "\<exists>fmt self'. get_rtc_style self tok base = (Inr fmt, self')"
  using assms
  by (auto simp: get_rtc_style_def Let_def style_style_for_token_def split: option.splits)

lemma SetStyleEx_frame:
  "GetId (SetStyleEx outfile rng fmt) = GetId outfile"
  "GetValue (SetStyleEx outfile rng fmt) = GetValue outfile"
  "GetBasicStyle (SetStyleEx outfile rng fmt) = GetBasicStyle outfile"
  "SuppressUndo (SetStyleEx outfile rng fmt) = SuppressUndo outfile"
  "Frozen (SetStyleEx outfile rng fmt) = Frozen outfile"
  "StyleEx_calls (SetStyleEx outfile rng fmt) = StyleEx_calls outfile @ [(rng, fmt)]"
  by (simp_all add: SetStyleEx_def GetId_def GetValue_def GetBasicStyle_def)

lemma format_loop_Yield_skip:
  assumes "length (case last_text_cache self (GetId outfile) of Some s \<Rightarrow> s | None \<Rightarrow> []) > i + length text"
      and "slice (GetValue outfile) i (i + length text)
           = slice (case last_text_cache self (GetId outfile) of Some s \<Rightarrow> s | None \<Rightarrow> []) i (i + length text)"
  shows "format_loop self outfile i (Yield tok text rest) = format_loop self outfile (i + length text) rest"
  using assms by (simp add: Let_def RichTextRange_new_def)

lemma format_loop_Yield_apply:
  assumes "\<not> (length (case last_text_cache self (GetId outfile) of Some s \<Rightarrow> s | None \<Rightarrow> []) > i + length text
      \<and> slice (GetValue outfile) i (i + length text)
           = slice (case last_text_cache self (GetId outfile) of Some s \<Rightarrow> s | None \<Rightarrow> []) i (i + length text))"
  shows "format_loop self outfile i (Yield tok text rest) =
     (case get_rtc_style self tok (GetBasicStyle outfile) of
        (Inl e, self') \<Rightarrow> (Inl e, self', outfile)
      | (Inr fmt, self') \<Rightarrow>
          format_loop self' (SetStyleEx outfile \<lparr>Start = i, End = i + length text\<rparr> fmt) (i + length text) rest)"
  using assms by (auto simp: Let_def RichTextRange_new_def split: prod.splits sum.splits)

lemma format_loop_frame:
  assumes "format_loop self outfile i toks = (r, self', outfile')"
  shows "style self' = style self \<and> last_text_cache self' = last_text_cache self
       \<and> styles_cache self \<subseteq>\<^sub>m styles_cache self'
       \<and> GetId outfile' = GetId outfile \<and> GetValue outfile' = GetValue outfile
       \<and> SuppressUndo outfile' = SuppressUndo outfile \<and> Frozen outfile' = Frozen outfile"
  using assms
proof (induction toks arbitrary: self outfile i)
  case StopIteration
  then show ?case by simp
next
  case (Raise e)
  then show ?case by simp
next
  case (Yield tok str rest)
  let ?last = "case last_text_cache self (GetId outfile) of Some s \<Rightarrow> s | None \<Rightarrow> []"
  show ?case
  proof (cases "length ?last > i + length str
      \<and> slice (GetValue outfile) i (i + length str) = slice ?last i (i + length str)")
    case True
    then have "format_loop self outfile (i + length str) rest = (r, self', outfile')"
      using Yield.prems format_loop_Yield_skip[of i str self outfile tok rest] by simp
    then show ?thesis by (rule Yield.IH)
  next
    case False
    note step = format_loop_Yield_apply[OF False, of tok rest]
    obtain q self1 where g: "get_rtc_style self tok (GetBasicStyle outfile) = (q, self1)"
      by (cases "get_rtc_style self tok (GetBasicStyle outfile)")
    note fr = get_rtc_style_frame[OF g]
    show ?thesis
    proof (cases q)
      case (Inl e)
      then have "(r, self', outfile') = (Inl e, self1, outfile)"
        using Yield.prems step g by simp
      then show ?thesis using fr by simp
    next
      case (Inr fmt)
      then have "format_loop self1 (SetStyleEx outfile \<lparr>Start = i, End = i + length str\<rparr> fmt)
                   (i + length str) rest = (r, self', outfile')"
        using Yield.prems step g by simp
      from Yield.IH[OF this] show ?thesis
        using fr by (auto simp: SetStyleEx_frame intro: map_le_trans)
    qed
  qed
qed


lemma format_loop_uncached:
  assumes "last_text_cache self (GetId outfile) = None"
      and "style self = StyleCls th"
      and "\<forall>tok \<in> fst ` set spans. \<exists>sp. style_for_token th tok = Inr sp"
  shows "\<exists>self' outfile'.
           format_loop self outfile i (of_spans spans) = (Inr (), self', outfile')
         \<and> map fst (StyleEx_calls outfile') = map fst (StyleEx_calls outfile) @ span_ranges i spans"
  using assms
proof (induction spans arbitrary: self outfile i)
  case Nil
  then show ?case by simp
next
  case (Cons span rest)
  obtain tok str where span: "span = (tok, str)" by (cases span)
  have nolast: "(case last_text_cache self (GetId outfile) of Some s \<Rightarrow> s | None \<Rightarrow> []) = []"
    using Cons.prems(1) by simp
  have noskip: "\<not> (length (case last_text_cache self (GetId outfile) of Some s \<Rightarrow> s | None \<Rightarrow> [])
                     > i + length str
      \<and> slice (GetValue outfile) i (i + length str)
           = slice (case last_text_cache self (GetId outfile) of Some s \<Rightarrow> s | None \<Rightarrow> [])
               i (i + length str))"
    by (simp add: nolast)
  note step = format_loop_Yield_apply[OF noskip, of tok "of_spans rest"]
  obtain sp where sp: "style_for_token th tok = Inr sp"
    using Cons.prems(3) span by auto
  obtain fmt self1 where g: "get_rtc_style self tok (GetBasicStyle outfile) = (Inr fmt, self1)"
    using get_rtc_style_succeeds[OF Cons.prems(2) sp] by blast
  note fr = get_rtc_style_frame[OF g]
  let ?w = "SetStyleEx outfile \<lparr>Start = i, End = i + length str\<rparr> fmt"
  have p1: "last_text_cache self1 (GetId ?w) = None"
    using Cons.prems(1) fr(2) by (simp add: SetStyleEx_frame)
  have p2: "style self1 = StyleCls th"
    using Cons.prems(2) fr(1) by simp
  have p3: "\<forall>tok \<in> fst ` set rest. \<exists>sp. style_for_token th tok = Inr sp"
    using Cons.prems(3) by simp
  from Cons.IH[OF p1 p2 p3, of "i + length str"]
  obtain self' outfile' where
    run: "format_loop self1 ?w (i + length str) (of_spans rest) = (Inr (), self', outfile')"
    and calls: "map fst (StyleEx_calls outfile')
                  = map fst (StyleEx_calls ?w) @ span_ranges (i + length str) rest"
    by blast
  have "format_loop self outfile i (of_spans (span # rest)) = (Inr (), self', outfile')"
    using step g run span by simp
  moreover have "map fst (StyleEx_calls outfile')
      = map fst (StyleEx_calls outfile) @ span_ranges i (span # rest)"
    using calls span by (simp add: SetStyleEx_frame)
  ultimately show ?case by blast
qed

lemma format_loop_total:
  assumes "style self = StyleCls th"
      and "\<forall>tok \<in> fst ` set spans. \<exists>sp. style_for_token th tok = Inr sp"
  shows "\<exists>self' outfile' calls.
           format_loop self outfile i (of_spans spans) = (Inr (), self', outfile')
         \<and> StyleEx_calls outfile' = StyleEx_calls outfile @ calls
         \<and> set (map fst calls) \<subseteq> set (span_ranges i spans)"
  using assms
proof (induction spans arbitrary: self outfile i)
  case Nil
  then show ?case by simp
next
  case (Cons span rest)
  obtain tok str where span: "span = (tok, str)" by (cases span)
  let ?last = "case last_text_cache self (GetId outfile) of Some s \<Rightarrow> s | None \<Rightarrow> []"
  have p3: "\<forall>tok \<in> fst ` set rest. \<exists>sp. style_for_token th tok = Inr sp"
    using Cons.prems(2) by simp
  show ?case
  proof (cases "length ?last > i + length str
      \<and> slice (GetValue outfile) i (i + length str) = slice ?last i (i + length str)")
    case True
    then have step: "format_loop self outfile i (Yield tok str (of_spans rest))
                = format_loop self outfile (i + length str) (of_spans rest)"
      using format_loop_Yield_skip[of i str self outfile tok "of_spans rest"] by simp
    from Cons.IH[OF Cons.prems(1) p3, of outfile "i + length str"]
    obtain self' outfile' calls where
      run: "format_loop self outfile (i + length str) (of_spans rest) = (Inr (), self', outfile')"
      and calls: "StyleEx_calls outfile' = StyleEx_calls outfile @ calls"
                 "set (map fst calls) \<subseteq> set (span_ranges (i + length str) rest)"
      by blast
    have "format_loop self outfile i (of_spans (span # rest)) = (Inr (), self', outfile')"
      using step run span by simp
    moreover have "set (map fst calls) \<subseteq> set (span_ranges i (span # rest))"
      using calls(2) span by auto
    ultimately show ?thesis using calls(1) by blast
  next
    case False
    note step = format_loop_Yield_apply[OF False, of tok "of_spans rest"]
    obtain sp where sp: "style_for_token th tok = Inr sp"
      using Cons.prems(2) span by auto
    obtain fmt self1 where g: "get_rtc_style self tok (GetBasicStyle outfile) = (Inr fmt, self1)"
      using get_rtc_style_succeeds[OF Cons.prems(1) sp] by blast
    note fr = get_rtc_style_frame[OF g]
    let ?w = "SetStyleEx outfile \<lparr>Start = i, End = i + length str\<rparr> fmt"
    have p2: "style self1 = StyleCls th"
      using Cons.prems(1) fr(1) by simp
    from Cons.IH[OF p2 p3, of ?w "i + length str"]
    obtain self' outfile' calls where
      run: "format_loop self1 ?w (i + length str) (of_spans rest) = (Inr (), self', outfile')"
      and calls: "StyleEx_calls outfile' = StyleEx_calls ?w @ calls"
                 "set (map fst calls) \<subseteq> set (span_ranges (i + length str) rest)"
      by blast
    have "format_loop self outfile i (of_spans (span # rest)) = (Inr (), self', outfile')"
      using step g run span by simp
    moreover have "StyleEx_calls outfile'
        = StyleEx_calls outfile @ ((\<lparr>Start = i, End = i + length str\<rparr>, fmt) # calls)"
      using calls(1) by (simp add: SetStyleEx_frame)
    moreover have "set (map fst ((\<lparr>Start = i, End = i + length str\<rparr>, fmt) # calls))
        \<subseteq> set (span_ranges i (span # rest))"
      using calls(2) span by auto
    ultimately show ?thesis by blast
  qed
qed

lemma format_entry_frame:
  "GetId (SetBackgroundColour (Freeze (BeginSuppressUndo outfile)) bg) = GetId outfile"
  "GetValue (SetBackgroundColour (Freeze (BeginSuppressUndo outfile)) bg) = GetValue outfile"
  "StyleEx_calls (SetBackgroundColour (Freeze (BeginSuppressUndo outfile)) bg) = StyleEx_calls outfile"
  "SuppressUndo (SetBackgroundColour (Freeze (BeginSuppressUndo outfile)) bg) = SuppressUndo outfile + 1"
  "Frozen (SetBackgroundColour (Freeze (BeginSuppressUndo outfile)) bg) = Frozen outfile + 1"
  by (simp_all add: SetBackgroundColour_def Freeze_def BeginSuppressUndo_def GetId_def GetValue_def)

lemma format_exit_frame:
  "GetId (Refresh (Update (Thaw (EndSuppressUndo outfile)))) = GetId outfile"
  "GetValue (Refresh (Update (Thaw (EndSuppressUndo outfile)))) = GetValue outfile"
  "StyleEx_calls (Refresh (Update (Thaw (EndSuppressUndo outfile)))) = StyleEx_calls outfile"
  "SuppressUndo (Refresh (Update (Thaw (EndSuppressUndo outfile)))) = SuppressUndo outfile - 1"
  "Frozen (Refresh (Update (Thaw (EndSuppressUndo outfile)))) = Frozen outfile - 1"
  by (simp_all add: Refresh_def Update_def Thaw_def EndSuppressUndo_def GetId_def GetValue_def)

lemma length_span_ranges: "length (span_ranges i spans) = length spans"
  by (induction spans arbitrary: i) auto

lemma format_caches_frame:
  assumes "format self toks outfile = (r, self', outfile')"
  shows "styles_cache self \<subseteq>\<^sub>m styles_cache self'"
    and "dom (last_text_cache self) \<subseteq> dom (last_text_cache self')"
    and "style self' = style self"
proof -
  have "styles_cache self \<subseteq>\<^sub>m styles_cache self'
      \<and> dom (last_text_cache self) \<subseteq> dom (last_text_cache self') \<and> style self' = style self"
  proof (cases "style_background_color (style self)")
    case (Inl e)
    then have "self' = self" using assms by (simp add: format_def Let_def)
    then show ?thesis by simp
  next
    case (Inr bg)
    let ?w = "SetBackgroundColour (Freeze (BeginSuppressUndo outfile)) bg"
    obtain q self1 w1 where run: "format_loop self ?w 0 toks = (q, self1, w1)"
      by (cases "format_loop self ?w 0 toks")
    note fr = format_loop_frame[OF run]
    show ?thesis
    proof (cases q)
      case (Inl e)
      then have "self' = self1" using assms Inr run by (simp add: format_def Let_def)
      then show ?thesis using fr by simp
    next
      case q: (Inr u)
      then have "self' = self1\<lparr>last_text_cache := (last_text_cache self1)(GetId w1 \<mapsto> GetValue w1)\<rparr>"
        using assms Inr run by (simp add: format_def Let_def)
      then show ?thesis using fr by auto
    qed
  qed
  then show "styles_cache self \<subseteq>\<^sub>m styles_cache self'"
    and "dom (last_text_cache self) \<subseteq> dom (last_text_cache self')"
    and "style self' = style self" by simp_all
qed

lemmas ctrl_ops = Freeze_def BeginSuppressUndo_def SetBackgroundColour_def SetStyleEx_def
  EndSuppressUndo_def Thaw_def Update_def Refresh_def GetId_def GetValue_def GetBasicStyle_def
  RichTextRange_new_def slice_def

lemmas scenario = example_formatter_def example_ctrl_def example_spans_def default_theme_def
  keyword_spec_def plain_spec_def

lemmas run_format = format_def Let_def style_background_color_def get_rtc_style_def
  style_style_for_token_def

section \<open>The first call\<close>

text \<open>
  C4 (as the code has it). Full coverage on the first call. When the control has no entry
  in the text cache and the theme resolves every token of a finite stream, \<open>format\<close> returns normally and the
  control has received exactly one \<open>SetStyleEx\<close> call per span, in the order of the
  stream, the range of span \<open>k\<close> starting at the cumulative length of the texts before
  it: no span is skipped.
\<close>

theorem format_first_call_styles_every_span:
  assumes "last_text_cache self (GetId outfile) = None"
      and "style self = StyleCls th"
      and "\<forall>tok \<in> fst ` set spans. \<exists>sp. style_for_token th tok = Inr sp"
  shows "\<exists>self' outfile'.
           format self (of_spans spans) outfile = (Inr (), self', outfile')
         \<and> map fst (StyleEx_calls outfile') = map fst (StyleEx_calls outfile) @ span_ranges 0 spans
         \<and> length (StyleEx_calls outfile') = length (StyleEx_calls outfile) + length spans"
proof -
  let ?w = "SetBackgroundColour (Freeze (BeginSuppressUndo outfile)) (background_color th)"
  have bg: "style_background_color (style self) = Inr (background_color th)"
    using assms(2) by (simp add: style_background_color_def)
  have nocache: "last_text_cache self (GetId ?w) = None"
    using assms(1) by (simp add: format_entry_frame)
  from format_loop_uncached[OF nocache assms(2) assms(3), of 0]
  obtain self1 w1 where
    run: "format_loop self ?w 0 (of_spans spans) = (Inr (), self1, w1)"
    and calls: "map fst (StyleEx_calls w1) = map fst (StyleEx_calls ?w) @ span_ranges 0 spans"
    by blast
  let ?self' = "self1\<lparr>last_text_cache := (last_text_cache self1)(GetId w1 \<mapsto> GetValue w1)\<rparr>"
  let ?out = "Refresh (Update (Thaw (EndSuppressUndo w1)))"
  have res: "format self (of_spans spans) outfile = (Inr (), ?self', ?out)"
    using bg run by (simp add: format_def Let_def)
  have m: "map fst (StyleEx_calls ?out) = map fst (StyleEx_calls outfile) @ span_ranges 0 spans"
    using calls by (simp add: format_exit_frame format_entry_frame)
  have "length (map fst (StyleEx_calls ?out)) = length (StyleEx_calls outfile) + length spans"
    unfolding m by (simp add: length_span_ranges)
  then have "length (StyleEx_calls ?out) = length (StyleEx_calls outfile) + length spans"
    by simp
  with res m show ?thesis by blast
qed

theorem format_first_call_styles_every_span_witness:
  "last_text_cache example_formatter (GetId example_ctrl) = None
   \<and> style example_formatter = StyleCls default_theme
   \<and> list_all (\<lambda>tok. \<exists>sp. style_for_token default_theme tok = Inr sp) (map fst example_spans)
   \<and> (\<exists>self' outfile'.
         format example_formatter (of_spans example_spans) example_ctrl = (Inr (), self', outfile')
       \<and> map fst (StyleEx_calls outfile')
           = [\<lparr>Start = 0, End = 2\<rparr>, \<lparr>Start = 2, End = 3\<rparr>, \<lparr>Start = 3, End = 4\<rparr>]
       \<and> length (StyleEx_calls outfile') = 3)"
proof -
  have h1: "last_text_cache example_formatter (GetId example_ctrl) = None"
    by (simp add: example_formatter_def)
  have h2: "style example_formatter = StyleCls default_theme"
    by (simp add: example_formatter_def)
  have h3: "\<forall>tok \<in> fst ` set example_spans. \<exists>sp. style_for_token default_theme tok = Inr sp"
    by (simp add: example_spans_def default_theme_def)
  have e: "StyleEx_calls example_ctrl = []" "span_ranges 0 example_spans
      = [\<lparr>Start = 0, End = 2\<rparr>, \<lparr>Start = 2, End = 3\<rparr>, \<lparr>Start = 3, End = 4\<rparr>]"
      "length example_spans = 3"
    by (simp_all add: example_ctrl_def example_spans_def)
  have h3': "list_all (\<lambda>tok. \<exists>sp. style_for_token default_theme tok = Inr sp) (map fst example_spans)"
    by (simp add: example_spans_def default_theme_def)
  show ?thesis
    using h1 h2 h3' format_first_call_styles_every_span[OF h1 h2 h3] by (simp add: e)
qed


text \<open>
  The claim as written fails for a stream with a token that the theme does not resolve:
  with no entry in the text cache, \<open>format\<close> raises \<open>KeyError\<close> at the second of the
  three spans, having applied one style.
\<close>

theorem format_first_call_aborts_on_unresolved_token:
  "last_text_cache (example_formatter\<lparr>style := StyleCls keyword_only_theme\<rparr>)
     (GetId example_ctrl) = None
   \<and> length example_spans = 3
   \<and> fst (format (example_formatter\<lparr>style := StyleCls keyword_only_theme\<rparr>)
            (of_spans example_spans) example_ctrl) = Inl KeyError
   \<and> map fst (StyleEx_calls (snd (snd
        (format (example_formatter\<lparr>style := StyleCls keyword_only_theme\<rparr>)
           (of_spans example_spans) example_ctrl))))
       = [\<lparr>Start = 0, End = 2\<rparr>]"
  by (simp add: run_format ctrl_ops scenario keyword_only_theme_def)

section \<open>The undo and freeze scope\<close>

text \<open>
  C3 (as the code has it). \<open>format\<close> releases the undo suppression and the freeze it
  took at entry on its normal exit only. When the call returns normally both depths are
  what they were at entry; when the token source or the resolution of a style raises, the
  exception reaches the caller with both depths still one above their values at entry.
\<close>

theorem format_scope_released_only_on_normal_exit:
  "(case fst (format self toks outfile) of
      Inr u \<Rightarrow> SuppressUndo (snd (snd (format self toks outfile))) = SuppressUndo outfile
              \<and> Frozen (snd (snd (format self toks outfile))) = Frozen outfile
    | Inl e \<Rightarrow> SuppressUndo (snd (snd (format self toks outfile))) = SuppressUndo outfile + 1
              \<and> Frozen (snd (snd (format self toks outfile))) = Frozen outfile + 1)"
proof (cases "style_background_color (style self)")
  case (Inl e)
  then have "format self toks outfile = (Inl e, self, Freeze (BeginSuppressUndo outfile))"
    by (simp add: format_def Let_def)
  then show ?thesis by (simp add: Freeze_def BeginSuppressUndo_def)
next
  case (Inr bg)
  let ?w = "SetBackgroundColour (Freeze (BeginSuppressUndo outfile)) bg"
  obtain q self1 w1 where run: "format_loop self ?w 0 toks = (q, self1, w1)"
    by (cases "format_loop self ?w 0 toks")
  have fr: "SuppressUndo w1 = SuppressUndo outfile + 1" "Frozen w1 = Frozen outfile + 1"
    using format_loop_frame[OF run] by (simp_all add: format_entry_frame)
  show ?thesis
  proof (cases q)
    case (Inl e)
    then have "format self toks outfile = (Inl e, self1, w1)"
      using Inr run by (simp add: format_def Let_def)
    then show ?thesis using fr by simp
  next
    case q: (Inr u)
    then have "format self toks outfile
        = (Inr (), self1\<lparr>last_text_cache := (last_text_cache self1)(GetId w1 \<mapsto> GetValue w1)\<rparr>,
           Refresh (Update (Thaw (EndSuppressUndo w1))))"
      using Inr run by (simp add: format_def Let_def)
    then show ?thesis using fr by (simp add: format_exit_frame)
  qed
qed

lemma format_broken_theme_raises:
  "fst (format (example_formatter\<lparr>style := StyleCls broken_theme\<rparr>)
          (of_spans example_spans) example_ctrl) = Inl KeyError"
  by (simp add: run_format ctrl_ops scenario broken_theme_def)

theorem format_scope_released_only_on_normal_exit_witness:
  "fst (format example_formatter (of_spans example_spans) example_ctrl) = Inr ()
   \<and> SuppressUndo ctrl_after_first = 0 \<and> Frozen ctrl_after_first = 0
   \<and> SuppressUndo (snd (snd (format (example_formatter\<lparr>style := StyleCls broken_theme\<rparr>)
          (of_spans example_spans) example_ctrl))) = 1
   \<and> Frozen (snd (snd (format (example_formatter\<lparr>style := StyleCls broken_theme\<rparr>)
          (of_spans example_spans) example_ctrl))) = 1"
proof -
  have ok: "fst (format example_formatter (of_spans example_spans) example_ctrl) = Inr ()"
    by (simp add: run_format ctrl_ops scenario)
  have z: "SuppressUndo example_ctrl = 0" "Frozen example_ctrl = 0"
    by (simp_all add: example_ctrl_def)
  show ?thesis
    using format_scope_released_only_on_normal_exit
            [of example_formatter "of_spans example_spans" example_ctrl]
          format_scope_released_only_on_normal_exit
            [of "example_formatter\<lparr>style := StyleCls broken_theme\<rparr>"
                "of_spans example_spans" example_ctrl]
    by (simp add: ok z format_broken_theme_raises ctrl_after_first_def)
qed

text \<open>
  The claim as written fails: a token source that raises after its first span leaves the
  control frozen and its undo suppressed when the exception reaches the caller.
\<close>

theorem format_scope_held_after_raise:
  "fst (format example_formatter failing_source example_ctrl) = Inl (LexerError ''boom'')
   \<and> SuppressUndo example_ctrl = 0 \<and> Frozen example_ctrl = 0
   \<and> SuppressUndo (snd (snd (format example_formatter failing_source example_ctrl))) = 1
   \<and> Frozen (snd (snd (format example_formatter failing_source example_ctrl))) = 1"
  by (simp add: run_format ctrl_ops scenario failing_source_def)

section \<open>Streams that do not reconstruct the text\<close>

text \<open>
  C8 (as the code has it). \<open>format\<close> never compares the stream with the text of the
  control. For every finite stream whose tokens the theme resolves, whether or not its
  texts concatenate to the text of the control, the call returns normally, and every
  style it applied is at the cumulative range of a span of the stream. An error comes
  only from the token source itself or from the resolution of a style.
\<close>

theorem format_accepts_any_finite_stream:
  assumes "style self = StyleCls th"
      and "\<forall>tok \<in> fst ` set spans. \<exists>sp. style_for_token th tok = Inr sp"
  shows "\<exists>self' outfile' calls.
           format self (of_spans spans) outfile = (Inr (), self', outfile')
         \<and> StyleEx_calls outfile' = StyleEx_calls outfile @ calls
         \<and> set (map fst calls) \<subseteq> set (span_ranges 0 spans)"
proof -
  let ?w = "SetBackgroundColour (Freeze (BeginSuppressUndo outfile)) (background_color th)"
  have bg: "style_background_color (style self) = Inr (background_color th)"
    using assms(1) by (simp add: style_background_color_def)
  from format_loop_total[OF assms, of ?w 0]
  obtain self1 w1 calls where
    run: "format_loop self ?w 0 (of_spans spans) = (Inr (), self1, w1)"
    and calls: "StyleEx_calls w1 = StyleEx_calls ?w @ calls"
               "set (map fst calls) \<subseteq> set (span_ranges 0 spans)"
    by blast
  let ?self' = "self1\<lparr>last_text_cache := (last_text_cache self1)(GetId w1 \<mapsto> GetValue w1)\<rparr>"
  let ?out = "Refresh (Update (Thaw (EndSuppressUndo w1)))"
  have "format self (of_spans spans) outfile = (Inr (), ?self', ?out)"
    using bg run by (simp add: format_def Let_def)
  moreover have "StyleEx_calls ?out = StyleEx_calls outfile @ calls"
    using calls(1) by (simp add: format_exit_frame format_entry_frame)
  ultimately show ?thesis using calls(2) by blast
qed

theorem format_accepts_any_finite_stream_witness:
  "style example_formatter = StyleCls default_theme
   \<and> list_all (\<lambda>tok. \<exists>sp. style_for_token default_theme tok = Inr sp) (map fst gap_spans)
   \<and> concat (map snd gap_spans) \<noteq> GetValue example_ctrl
   \<and> (\<exists>self' outfile' calls.
         format example_formatter (of_spans gap_spans) example_ctrl = (Inr (), self', outfile')
       \<and> StyleEx_calls outfile' = calls
       \<and> set (map fst calls) \<subseteq> {\<lparr>Start = 0, End = 2\<rparr>, \<lparr>Start = 2, End = 3\<rparr>})"
proof -
  have h1: "style example_formatter = StyleCls default_theme"
    by (simp add: example_formatter_def)
  have h2: "\<forall>tok \<in> fst ` set gap_spans. \<exists>sp. style_for_token default_theme tok = Inr sp"
    by (simp add: gap_spans_def default_theme_def)
  have h2': "list_all (\<lambda>tok. \<exists>sp. style_for_token default_theme tok = Inr sp) (map fst gap_spans)"
    by (simp add: gap_spans_def default_theme_def)
  have ne: "concat (map snd gap_spans) \<noteq> GetValue example_ctrl"
    by (simp add: gap_spans_def example_ctrl_def GetValue_def)
  have e: "StyleEx_calls example_ctrl = []"
    "set (span_ranges 0 gap_spans) = {\<lparr>Start = 0, End = 2\<rparr>, \<lparr>Start = 2, End = 3\<rparr>}"
    by (simp_all add: example_ctrl_def gap_spans_def eval_nat_numeral)
  show ?thesis
    using h1 h2' ne format_accepts_any_finite_stream[OF h1 h2, of example_ctrl]
    by (simp add: e)
qed

text \<open>
  The claim as written fails: the stream below leaves out the blank of \<open>if x\<close>, and
  \<open>format\<close> returns normally, having styled \<open>[2,3)\<close> (the blank) as a name.
\<close>

theorem format_gap_stream_no_error:
  "concat (map snd gap_spans) \<noteq> GetValue example_ctrl
   \<and> fst (format example_formatter (of_spans gap_spans) example_ctrl) = Inr ()
   \<and> map fst (StyleEx_calls (snd (snd (format example_formatter (of_spans gap_spans) example_ctrl))))
       = [\<lparr>Start = 0, End = 2\<rparr>, \<lparr>Start = 2, End = 3\<rparr>]"
  by (simp add: run_format ctrl_ops scenario gap_spans_def)


section \<open>The second call on unchanged text\<close>

text \<open>
  What the loop does when the cached text is the text of the control: the two slices are
  equal, so a span is skipped exactly when the cached text is strictly longer than the
  end of the span. The spans styled again are those that end at or after the end of the
  text.
\<close>

lemma format_loop_unchanged_text:
  assumes "last_text_cache self (GetId outfile) = Some (GetValue outfile)"
      and "style self = StyleCls th"
      and "\<forall>tok \<in> fst ` set spans. \<exists>sp. style_for_token th tok = Inr sp"
  shows "\<exists>self' outfile'.
           format_loop self outfile i (of_spans spans) = (Inr (), self', outfile')
         \<and> map fst (StyleEx_calls outfile')
             = map fst (StyleEx_calls outfile)
               @ filter (\<lambda>rng. \<not> End rng < length (GetValue outfile)) (span_ranges i spans)"
  using assms
proof (induction spans arbitrary: self outfile i)
  case Nil
  then show ?case by simp
next
  case (Cons span rest)
  obtain tok str where span: "span = (tok, str)" by (cases span)
  have last: "(case last_text_cache self (GetId outfile) of Some s \<Rightarrow> s | None \<Rightarrow> [])
                = GetValue outfile"
    using Cons.prems(1) by simp
  have p3: "\<forall>tok \<in> fst ` set rest. \<exists>sp. style_for_token th tok = Inr sp"
    using Cons.prems(3) by simp
  show ?case
  proof (cases "i + length str < length (GetValue outfile)")
    case True
    have step: "format_loop self outfile i (Yield tok str (of_spans rest))
                = format_loop self outfile (i + length str) (of_spans rest)"
      by (rule format_loop_Yield_skip) (simp_all add: last True)
    from Cons.IH[OF Cons.prems(1) Cons.prems(2) p3, of "i + length str"]
    obtain self' outfile' where
      run: "format_loop self outfile (i + length str) (of_spans rest) = (Inr (), self', outfile')"
      and calls: "map fst (StyleEx_calls outfile')
             = map fst (StyleEx_calls outfile)
               @ filter (\<lambda>rng. \<not> End rng < length (GetValue outfile))
                   (span_ranges (i + length str) rest)"
      by blast
    have "format_loop self outfile i (of_spans (span # rest)) = (Inr (), self', outfile')"
      using step run span by simp
    moreover have "map fst (StyleEx_calls outfile')
             = map fst (StyleEx_calls outfile)
               @ filter (\<lambda>rng. \<not> End rng < length (GetValue outfile))
                   (span_ranges i (span # rest))"
      using calls span True by simp
    ultimately show ?thesis by blast
  next
    case False
    have noskip: "\<not> (length (case last_text_cache self (GetId outfile) of Some s \<Rightarrow> s | None \<Rightarrow> [])
                     > i + length str
      \<and> slice (GetValue outfile) i (i + length str)
           = slice (case last_text_cache self (GetId outfile) of Some s \<Rightarrow> s | None \<Rightarrow> [])
               i (i + length str))"
      using False by (simp add: last)
    note step = format_loop_Yield_apply[OF noskip, of tok "of_spans rest"]
    obtain sp where sp: "style_for_token th tok = Inr sp"
      using Cons.prems(3) span by auto
    obtain fmt self1 where g: "get_rtc_style self tok (GetBasicStyle outfile) = (Inr fmt, self1)"
      using get_rtc_style_succeeds[OF Cons.prems(2) sp] by blast
    note fr = get_rtc_style_frame[OF g]
    let ?w = "SetStyleEx outfile \<lparr>Start = i, End = i + length str\<rparr> fmt"
    have p1: "last_text_cache self1 (GetId ?w) = Some (GetValue ?w)"
      using Cons.prems(1) fr(2) by (simp add: SetStyleEx_frame)
    have p2: "style self1 = StyleCls th"
      using Cons.prems(2) fr(1) by simp
    from Cons.IH[OF p1 p2 p3, of "i + length str"]
    obtain self' outfile' where
      run: "format_loop self1 ?w (i + length str) (of_spans rest) = (Inr (), self', outfile')"
      and calls: "map fst (StyleEx_calls outfile')
             = map fst (StyleEx_calls ?w)
               @ filter (\<lambda>rng. \<not> End rng < length (GetValue ?w))
                   (span_ranges (i + length str) rest)"
      by blast
    have "format_loop self outfile i (of_spans (span # rest)) = (Inr (), self', outfile')"
      using step g run span by simp
    moreover have "map fst (StyleEx_calls outfile')
             = map fst (StyleEx_calls outfile)
               @ filter (\<lambda>rng. \<not> End rng < length (GetValue outfile))
                   (span_ranges i (span # rest))"
      using calls span False by (simp add: SetStyleEx_frame)
    ultimately show ?thesis by blast
  qed
qed

text \<open>
  C1 (the code at the scenario of the specification). After a first \<open>format\<close> of
  \<open>if x\<close>, which applies the three styles, a second \<open>format\<close> with the same text and
  the same stream applies one more style, to the last span \<open>[3,4)\<close>: the cached text has
  length 4, which is not greater than the end of that span.
\<close>

theorem format_twice_restyles_last_span:
  "fst (format example_formatter (of_spans example_spans) example_ctrl) = Inr ()
   \<and> map fst (StyleEx_calls ctrl_after_first)
       = [\<lparr>Start = 0, End = 2\<rparr>, \<lparr>Start = 2, End = 3\<rparr>, \<lparr>Start = 3, End = 4\<rparr>]
   \<and> GetValue ctrl_after_first = GetValue example_ctrl
   \<and> last_text_cache formatter_after_first (GetId ctrl_after_first) = Some ''if x''
   \<and> fst (format formatter_after_first (of_spans example_spans) ctrl_after_first) = Inr ()
   \<and> map fst (StyleEx_calls
        (snd (snd (format formatter_after_first (of_spans example_spans) ctrl_after_first))))
       = [\<lparr>Start = 0, End = 2\<rparr>, \<lparr>Start = 2, End = 3\<rparr>, \<lparr>Start = 3, End = 4\<rparr>,
          \<lparr>Start = 3, End = 4\<rparr>]"
  by (simp add: formatter_after_first_def ctrl_after_first_def run_format ctrl_ops scenario)

text \<open>
  C2 (the code at one span). The cached text \<open>if x\<close> is as long as the end of the span
  \<open>[3,4)\<close> and agrees with the text of the control on that range, and yet the loop does
  not skip the span: it resolves the style of the token and applies it.
\<close>

theorem format_loop_restyles_span_ending_at_cached_length:
  "last_text_cache formatter_after_first (GetId ctrl_after_first) = Some ''if x''
   \<and> length ''if x'' \<ge> End (RichTextRange_new 3 (3 + length ''x''))
   \<and> slice (GetValue ctrl_after_first) 3 4 = slice ''if x'' 3 4
   \<and> StyleEx_calls (snd (snd (format_loop formatter_after_first ctrl_after_first 3
                                  (Yield [''Name''] ''x'' StopIteration))))
       = StyleEx_calls ctrl_after_first
         @ [(\<lparr>Start = 3, End = 4\<rparr>, make_font plain_spec RichTextAttr_new)]"
  by (simp add: formatter_after_first_def ctrl_after_first_def run_format ctrl_ops scenario
      make_font_def Apply_def override_def RichTextAttr_new_def SetFontStyle_def
      SetFontWeight_def SetFontUnderlined_def)


section \<open>Setting the style\<close>

lemma resolve_name_unknown:
  assumes "\<not> in_all_styles sty reg"
  shows "resolve_name reg sty = Inr sty"
  using assms by (simp add: resolve_name_def)

lemma set_style_result:
  "set_style reg self sty0 =
     (case resolve_name reg sty0 of
        Inl e \<Rightarrow> (Inl e, self)
      | Inr sty \<Rightarrow>
          if \<not> isinstance_PygmentsStyle sty then (Inl AssertionError, self)
          else if sty \<noteq> style self
               then (Inr (), \<lparr>style = sty, styles_cache = Map.empty, last_text_cache = Map.empty\<rparr>)
               else (Inr (), self))"
  by (cases self) (simp add: set_style_def Let_def split: sum.splits)

text \<open>
  C7. A value that is neither a name of the registry nor a theme makes \<open>set_style\<close>
  raise (the assertion fails) and leaves the formatter as it was: its theme and both
  caches are unchanged. Construction with such a value raises as well: the base class
  raises \<open>ClassNotFound\<close> for an unknown name, and for a value that is not a string the
  assertion of \<open>set_style\<close> fails, so that no formatter is returned.
\<close>

theorem set_style_rejects_unresolvable:
  assumes "\<not> in_all_styles sty reg" and "\<not> isinstance_PygmentsStyle sty"
  shows "set_style reg self sty = (Inl AssertionError, self)
       \<and> init reg sty = Inl (case sty of Str n \<Rightarrow> ClassNotFound n | _ \<Rightarrow> AssertionError)"
proof -
  have s: "set_style reg self' sty = (Inl AssertionError, self')" for self'
    using assms by (simp add: set_style_def resolve_name_unknown)
  have "init reg sty = Inl (case sty of Str n \<Rightarrow> ClassNotFound n | _ \<Rightarrow> AssertionError)"
  proof (cases sty)
    case (Str n)
    then have "n \<notin> fst ` set reg"
      using assms(1) by (simp add: in_all_styles_def get_all_styles_def)
    then have "map_of reg n = None"
      by (simp add: map_of_eq_None_iff)
    then show ?thesis
      using Str by (simp add: init_def Formatter_init_def get_style_by_name_def)
  next
    case (StyleCls th)
    then show ?thesis using assms(2) by (simp add: isinstance_PygmentsStyle_def)
  next
    case (IntVal k)
    then show ?thesis using s by (simp add: init_def Formatter_init_def Let_def)
  next
    case NoneVal
    then show ?thesis using s by (simp add: init_def Formatter_init_def Let_def)
  qed
  with s show ?thesis by simp
qed

theorem set_style_rejects_unresolvable_witness:
  "\<not> in_all_styles (Str ''nope'') example_registry
   \<and> \<not> isinstance_PygmentsStyle (Str ''nope'')
   \<and> set_style example_registry formatter_after_first (Str ''nope'')
       = (Inl AssertionError, formatter_after_first)
   \<and> init example_registry (Str ''nope'') = Inl (ClassNotFound ''nope'')
   \<and> \<not> in_all_styles (IntVal 42) example_registry
   \<and> \<not> isinstance_PygmentsStyle (IntVal 42)
   \<and> set_style example_registry formatter_after_first (IntVal 42)
       = (Inl AssertionError, formatter_after_first)
   \<and> init example_registry (IntVal 42) = Inl AssertionError"
proof -
  have a1: "\<not> in_all_styles (Str ''nope'') example_registry"
    by (simp add: in_all_styles_def get_all_styles_def example_registry_def)
  have a2: "\<not> isinstance_PygmentsStyle (Str ''nope'')"
    by (simp add: isinstance_PygmentsStyle_def)
  have b1: "\<not> in_all_styles (IntVal 42) example_registry"
    by (simp add: in_all_styles_def)
  have b2: "\<not> isinstance_PygmentsStyle (IntVal 42)"
    by (simp add: isinstance_PygmentsStyle_def)
  show ?thesis
    using a1 a2 b1 b2
      set_style_rejects_unresolvable[OF a1 a2, of formatter_after_first]
      set_style_rejects_unresolvable[OF b1 b2, of formatter_after_first]
    by simp
qed

text \<open>
  C5. The caches are cleared by \<open>set_style\<close> alone. A call of \<open>set_style\<close> either
  empties both caches, which happens exactly when it succeeds and the theme it stores
  differs from the one it replaces, or leaves both as they were. \<open>format\<close> (on every
  exit path) and \<open>get_rtc_style\<close> keep every entry of the style cache and every key of
  the text cache, and \<open>get_style\<close> only reads the theme.
\<close>

theorem caches_cleared_only_by_set_style:
  "(case set_style reg self sty of
      (r, self') \<Rightarrow>
        if r = Inr () \<and> style self' \<noteq> style self
        then styles_cache self' = Map.empty \<and> last_text_cache self' = Map.empty
        else styles_cache self' = styles_cache self
           \<and> last_text_cache self' = last_text_cache self)
   \<and> (case format self toks outfile of
        (r, self', outfile') \<Rightarrow>
          styles_cache self \<subseteq>\<^sub>m styles_cache self'
        \<and> dom (last_text_cache self) \<subseteq> dom (last_text_cache self'))
   \<and> (case get_rtc_style self tok base of
        (r, self') \<Rightarrow>
          styles_cache self \<subseteq>\<^sub>m styles_cache self'
        \<and> last_text_cache self' = last_text_cache self)
   \<and> get_style self = style self"
proof -
  have 1: "(case set_style reg self sty of
      (r, self') \<Rightarrow>
        if r = Inr () \<and> style self' \<noteq> style self
        then styles_cache self' = Map.empty \<and> last_text_cache self' = Map.empty
        else styles_cache self' = styles_cache self
           \<and> last_text_cache self' = last_text_cache self)"
    by (simp add: set_style_result split: sum.splits)
  obtain r self' outfile' where f: "format self toks outfile = (r, self', outfile')"
    by (cases "format self toks outfile")
  have 2: "(case format self toks outfile of
        (r, self', outfile') \<Rightarrow>
          styles_cache self \<subseteq>\<^sub>m styles_cache self'
        \<and> dom (last_text_cache self) \<subseteq> dom (last_text_cache self'))"
    using format_caches_frame[OF f] by (simp add: f)
  obtain q self1 where g: "get_rtc_style self tok base = (q, self1)"
    by (cases "get_rtc_style self tok base")
  have 3: "(case get_rtc_style self tok base of
        (r, self') \<Rightarrow>
          styles_cache self \<subseteq>\<^sub>m styles_cache self'
        \<and> last_text_cache self' = last_text_cache self)"
    using get_rtc_style_frame[OF g] by (simp add: g)
  show ?thesis using 1 2 3 by (simp add: get_style_def)
qed


lemma formatter_after_first_fields:
  "style formatter_after_first = StyleCls default_theme"
  "last_text_cache formatter_after_first = [7 \<mapsto> ''if x'']"
  "styles_cache formatter_after_first [''Keyword''] = Some (make_font keyword_spec RichTextAttr_new)"
  by (simp_all add: formatter_after_first_def run_format ctrl_ops scenario)

lemma themes_differ: "other_theme \<noteq> default_theme"
  by (simp add: other_theme_def default_theme_def)

lemma resolve_name_examples:
  "resolve_name example_registry (Str ''other'') = Inr (StyleCls other_theme)"
  "resolve_name example_registry (Str ''default'') = Inr (StyleCls default_theme)"
  by (simp_all add: resolve_name_def in_all_styles_def get_all_styles_def get_style_by_name_def
      example_registry_def)

lemma set_style_examples:
  "set_style example_registry formatter_after_first (Str ''other'')
     = (Inr (), \<lparr>style = StyleCls other_theme, styles_cache = Map.empty,
                 last_text_cache = Map.empty\<rparr>)"
  "set_style example_registry formatter_after_first (Str ''default'')
     = (Inr (), formatter_after_first)"
  by (simp_all add: set_style_result resolve_name_examples isinstance_PygmentsStyle_def
      formatter_after_first_fields themes_differ)

theorem caches_cleared_only_by_set_style_witness:
  "last_text_cache formatter_after_first 7 = Some ''if x''
   \<and> styles_cache (snd (set_style example_registry formatter_after_first (Str ''other''))) = Map.empty
   \<and> last_text_cache (snd (set_style example_registry formatter_after_first (Str ''other''))) = Map.empty
   \<and> last_text_cache (snd (set_style example_registry formatter_after_first (Str ''default''))) 7
       = Some ''if x''
   \<and> styles_cache example_formatter \<subseteq>\<^sub>m styles_cache formatter_after_first
   \<and> get_style formatter_after_first = StyleCls default_theme"
proof -
  have a: "fst (set_style example_registry formatter_after_first (Str ''other'')) = Inr ()"
    "style (snd (set_style example_registry formatter_after_first (Str ''other'')))
       \<noteq> style formatter_after_first"
    by (simp_all add: set_style_examples formatter_after_first_fields themes_differ)
  have b: "style (snd (set_style example_registry formatter_after_first (Str ''default'')))
       = style formatter_after_first"
    by (simp add: set_style_examples)
  note inst = caches_cleared_only_by_set_style
        [where reg = example_registry and toks = "of_spans example_spans"
           and outfile = example_ctrl and tok = "[''Keyword'']" and base = RichTextAttr_new]
  from inst[where self = formatter_after_first and sty = "Str ''other''"]
  have c1: "styles_cache (snd (set_style example_registry formatter_after_first (Str ''other'')))
              = Map.empty
          \<and> last_text_cache (snd (set_style example_registry formatter_after_first (Str ''other'')))
              = Map.empty"
    using a by (simp add: case_prod_beta)
  from inst[where self = formatter_after_first and sty = "Str ''default''"]
  have c2: "last_text_cache (snd (set_style example_registry formatter_after_first (Str ''default'')))
              = last_text_cache formatter_after_first"
    and c4: "get_style formatter_after_first = style formatter_after_first"
    using b by (simp_all add: case_prod_beta)
  from inst[where self = example_formatter and sty = "Str ''default''"]
  have c3: "styles_cache example_formatter \<subseteq>\<^sub>m styles_cache formatter_after_first"
    by (simp add: case_prod_beta formatter_after_first_def)
  show ?thesis
    using c1 c2 c3 c4 by (simp add: formatter_after_first_fields)
qed

section \<open>The style cache\<close>



text \<open>
  C10. The style cache is keyed by the token alone. Once \<open>get_rtc_style\<close> has returned a
  style for a token, a later call with the same token and any other base returns that same
  style, which (when the first call found no entry) is the one built from the base of the
  first call; the new base is not used.
\<close>

theorem styles_cache_ignores_base:
  assumes "get_rtc_style self tok base = (Inr v, self1)"
  shows "get_rtc_style self1 tok base' = (Inr v, self1)
       \<and> (styles_cache self tok = None \<longrightarrow>
            (\<exists>spec. style_style_for_token (style self) tok = Inr spec \<and> v = make_font spec base))"
proof -
  have "styles_cache self1 tok = Some v"
    using assms by (rule get_rtc_style_stores)
  then have 1: "get_rtc_style self1 tok base' = (Inr v, self1)"
    by (rule get_rtc_style_cached)
  have 2: "\<exists>spec. style_style_for_token (style self) tok = Inr spec \<and> v = make_font spec base"
    if "styles_cache self tok = None"
    using assms get_rtc_style_miss[OF that, of base] by (auto split: sum.splits)
  show ?thesis using 1 2 by blast
qed

theorem styles_cache_ignores_base_witness:
  "get_rtc_style example_formatter [''Keyword''] RichTextAttr_new
     = (Inr (make_font keyword_spec RichTextAttr_new),
        example_formatter\<lparr>styles_cache := [[''Keyword''] \<mapsto> make_font keyword_spec RichTextAttr_new]\<rparr>)
   \<and> fst (get_rtc_style
        (example_formatter\<lparr>styles_cache := [[''Keyword''] \<mapsto> make_font keyword_spec RichTextAttr_new]\<rparr>)
        [''Keyword''] serif_base) = Inr (make_font keyword_spec RichTextAttr_new)
   \<and> make_font keyword_spec serif_base \<noteq> make_font keyword_spec RichTextAttr_new"
proof -
  let ?v = "make_font keyword_spec RichTextAttr_new"
  let ?self1 = "example_formatter\<lparr>styles_cache := [[''Keyword''] \<mapsto> ?v]\<rparr>"
  have first: "get_rtc_style example_formatter [''Keyword''] RichTextAttr_new = (Inr ?v, ?self1)"
    by (simp add: get_rtc_style_def style_style_for_token_def example_formatter_def
        default_theme_def Let_def)
  have ne: "make_font keyword_spec serif_base \<noteq> ?v"
    by (simp add: make_font_def keyword_spec_def serif_base_def Apply_def override_def
        RichTextAttr_new_def SetFontStyle_def SetFontWeight_def SetFontUnderlined_def
        SetTextColour_def Let_def)
  show ?thesis
    using first ne styles_cache_ignores_base[OF first, of serif_base] by simp
qed

end
